theory Spec2Isabelle
  imports Main "HOL-Library.Word"
begin

section \<open>The Segi9 HTTP plugin\<close>

text \<open>
  The sources hold two copies of the plugin. The first is the \<open>package main\<close> file with
  \<open>type Plugin struct\<close>, \<open>Configure\<close>, \<open>Validate\<close>, \<open>Export\<close> and \<open>doRequest\<close> at the end of
  \<open>src/main.go\<close> (lines 370-662), driven by the \<open>main\<close>/\<open>run\<close>/\<open>runManual\<close> of lines
  132-220. The second is the \<open>package main\<close> file with \<open>var impl Plugin\<close>, \<open>Export\<close>,
  \<open>Configure\<close> and \<open>Validate\<close> that follows the make rules in \<open>src/Makefile\<close> (lines 70-335),
  driven by the \<open>main\<close>/\<open>runPlugin\<close>/\<open>runManual\<close> of \<open>src/main.go\<close> lines 1-131.
  Both declare the same \<open>Config\<close> struct. The functions of the first copy keep their
  names; those of the second carry the suffix \<open>_impl\<close>, after its package-level
  variable.

  Go's \<open>int\<close> is taken at 64 bits (amd64, arm64): \<open>Config.Timeout\<close> is a \<open>64 word\<close>, read
  as two's complement by \<open>sint\<close>, and \<open>time.Duration\<close> is the \<open>int64\<close> count of
  nanoseconds, so that \<open>time.Duration(t) * time.Second\<close> is the wrapping product
  \<open>t * 1000000000\<close>.

  The log calls (\<open>logInfof\<close>, \<open>logDebugf\<close>, \<open>logErrf\<close>, \<open>Infof\<close>, \<open>Debugf\<close>, \<open>Errorf\<close>)
  only write log lines and are left out; so is the \<open>sync.RWMutex\<close>, which every
  function releases before it returns.
\<close>

subsection \<open>Data\<close>

record Config =
  Timeout :: "64 word"
  SkipVerify :: bool

text \<open>\<open>Plugin\<close>: the embedded \<open>plugin.Base\<close> (the logger) and the mutex are left out.\<close>

record Plugin =
  config :: Config

text \<open>\<open>plugin.GlobalOptions\<close> of the SDK; only its \<open>Timeout\<close> field is read.\<close>

record GlobalOptions =
  GlobalTimeout :: "64 word"

text \<open>
  The \<open>interface{}\<close> value that the agent passes as plugin options, when it is not \<open>nil\<close>:
  a \<open>*Config\<close> (which may be a nil pointer), a \<open>map[string]interface{}\<close>, or a value
  of any other dynamic type.
\<close>

datatype ('m, 'a) iface =
    ConfigPtr "Config option"
  | StringMap 'm
  | OtherValue 'a

datatype error =
    UnsupportedKey string
      \<comment> \<open>\<open>unsupported key: %q\<close>\<close>
  | UrlRequired
      \<comment> \<open>\<open>segi9.http: the first parameter (url) is required and cannot be empty\<close>\<close>
  | BuildRequestFailed string string
      \<comment> \<open>\<open>failed to build HTTP request for %q: %w\<close>\<close>
  | BearerTokenRequired
      \<comment> \<open>\<open>auth_type 'bearer' requires a token in the third parameter (user)\<close>\<close>
  | UnsupportedAuthType string
      \<comment> \<open>\<open>unsupported auth_type %q; valid values are: none, basic, bearer\<close>\<close>
  | RequestFailed string string
      \<comment> \<open>\<open>HTTP request to %q failed: %w\<close>\<close>
  | ReadBodyFailed string string
      \<comment> \<open>\<open>failed to read response body from %q: %w\<close>\<close>
  | ParseConfigFailed string
      \<comment> \<open>\<open>errs.Wrap(err, "failed to parse plugin configuration")\<close>\<close>
  | TimeoutOutOfRange "64 word"
      \<comment> \<open>\<open>Plugins.Segi9.Timeout: value %d is out of the allowed range [1..30]\<close>\<close>
  | MissingUrlParameter
      \<comment> \<open>\<open>missing URL parameter\<close>\<close>
  | UrlCannotBeEmpty
      \<comment> \<open>\<open>URL cannot be empty\<close>\<close>
  | CreateRequestFailed string
      \<comment> \<open>\<open>failed to create request: %w\<close>\<close>
  | UnsupportedAuthType_impl string
      \<comment> \<open>\<open>unsupported auth type: %s\<close>\<close>
  | RequestFailed_impl string
      \<comment> \<open>\<open>request failed: %w\<close>\<close>
  | ReadBodyFailed_impl string
      \<comment> \<open>\<open>failed to read response body: %w\<close>\<close>
  | SetDefaultConfigFailed string
      \<comment> \<open>\<open>failed to set default config: %w\<close>\<close>
  | MarshalConfigMapFailed string
      \<comment> \<open>\<open>failed to marshal config map: %w\<close>\<close>
  | UnmarshalJsonConfigFailed string
      \<comment> \<open>\<open>failed to unmarshal JSON config: %w\<close>\<close>
  | InvalidTimeout "64 word"
      \<comment> \<open>\<open>invalid timeout: %d (must be between 1 and 30)\<close>\<close>

text \<open>A call either returns or panics (a nil \<open>*Config\<close> is dereferenced).\<close>

datatype 'a outcome = Panics | Returns 'a

subsection \<open>HTTP objects\<close>

text \<open>
  \<open>http.Request\<close>: method, target and header. Only \<open>Header.Set\<close> is used, with keys
  already in canonical form, so the header is a map from key to its one value.
\<close>

record Request =
  Method :: string
  URL :: string
  Header :: "string \<rightharpoonup> string"

text \<open>\<open>http.Client\<close>: the timeout in nanoseconds and the transport's TLS setting.\<close>

record Client =
  ClientTimeout :: "64 word"
  InsecureSkipVerify :: bool

text \<open>\<open>http.Response\<close>: the status code and what \<open>io.ReadAll(resp.Body)\<close> yields.\<close>

record Response =
  StatusCode :: int
  Body :: "string + string"

subsection \<open>Library functions\<close>

text \<open>
  The functions of Go's standard library and of the Zabbix SDK that the plugin calls
  are parameters of the model:
  \<^item> \<open>strings.ToLower\<close> and \<open>strings.TrimSpace\<close>;
  \<^item> \<open>url_Parse\<close>: the error, if any, with which \<open>http.NewRequest\<close> refuses a target;
  \<^item> \<open>client_Do\<close>: what \<open>client.Do(req)\<close> returns, a transport error or a response;
  \<^item> \<open>conf_Unmarshal\<close>: \<open>conf.Unmarshal(data, &cfg)\<close>, giving the configuration
    it leaves in \<open>cfg\<close> and its error, if any (\<open>data\<close> is \<open>None\<close> for \<open>nil\<close>);
  \<^item> \<open>json_Marshal\<close> on a \<open>map[string]interface{}\<close> and \<open>json_Unmarshal\<close> into a
    \<open>Config\<close>, in the same way.
\<close>

record ('m, 'a) library =
  strings_ToLower :: "string \<Rightarrow> string"
  strings_TrimSpace :: "string \<Rightarrow> string"
  url_Parse :: "string \<Rightarrow> string option"
  client_Do :: "Client \<Rightarrow> Request \<Rightarrow> string + Response"
  conf_Unmarshal :: "('m, 'a) iface option \<Rightarrow> Config \<Rightarrow> Config \<times> string option"
  json_Marshal :: "'m \<Rightarrow> string + string"
  json_Unmarshal :: "string \<Rightarrow> Config \<Rightarrow> Config \<times> string option"

subsection \<open>Configure and Validate (src/main.go)\<close>

text \<open>The hard clamp at the end of \<open>Configure\<close>: two \<open>if\<close> statements in sequence.\<close>

definition clamp_timeout :: "Config \<Rightarrow> Config" where
  "clamp_timeout c =
     (let c1 = (if sint (Timeout c) < 1 then c\<lparr>Timeout := 1\<rparr> else c)
      in if sint (Timeout c1) > 30 then c1\<lparr>Timeout := 30\<rparr> else c1)"

definition global_fallback :: "GlobalOptions option \<Rightarrow> Config \<Rightarrow> Config" where
  "global_fallback global c =
     (case global of
        None \<Rightarrow> c
      | Some g \<Rightarrow>
          if Timeout c = 0 \<and> sint (GlobalTimeout g) > 0
          then c\<lparr>Timeout := GlobalTimeout g\<rparr> else c)"

definition Configure ::
  "('m, 'a) library \<Rightarrow> Plugin \<Rightarrow> GlobalOptions option \<Rightarrow> ('m, 'a) iface option \<Rightarrow> Plugin" where
  "Configure lib p global options =
     (let c0 = \<lparr>Timeout = 10, SkipVerify = False\<rparr>;
          c1 = (case options of
                  None \<Rightarrow> c0
                | Some opts \<Rightarrow> fst (conf_Unmarshal lib (Some opts) c0))
      in p\<lparr>config := clamp_timeout (global_fallback global c1)\<rparr>)"

definition Validate :: "('m, 'a) library \<Rightarrow> ('m, 'a) iface option \<Rightarrow> error option" where
  "Validate lib options =
     (let cfg0 = \<lparr>Timeout = 10, SkipVerify = False\<rparr>;
          check = (\<lambda>cfg. if sint (Timeout cfg) < 1 \<or> sint (Timeout cfg) > 30
                         then Some (TimeoutOutOfRange (Timeout cfg)) else None)
      in case options of
           None \<Rightarrow> check cfg0
         | Some opts \<Rightarrow>
             (case conf_Unmarshal lib (Some opts) cfg0 of
                (cfg, Some err) \<Rightarrow> Some (ParseConfigFailed err)
              | (cfg, None) \<Rightarrow> check cfg))"

subsection \<open>Configure and Validate (src/Makefile)\<close>

text \<open>
  The options as this copy reads them: a \<open>*Config\<close> replaces the configuration, a
  map goes through JSON, anything else is ignored by \<open>Configure\<close>.
\<close>

definition Configure_impl ::
  "('m, 'a) library \<Rightarrow> Plugin \<Rightarrow> GlobalOptions option \<Rightarrow> ('m, 'a) iface option
     \<Rightarrow> Plugin outcome" where
  "Configure_impl lib p global privateOptions =
     (let c0 = fst (conf_Unmarshal lib None (config p));
          finish = (\<lambda>c1.
            let c2 = (case global of
                        None \<Rightarrow> c1
                      | Some g \<Rightarrow>
                          if sint (GlobalTimeout g) > 0
                          then (if Timeout c1 = 0 then c1\<lparr>Timeout := GlobalTimeout g\<rparr> else c1)
                          else c1);
                c3 = (if sint (Timeout c2) < 1 then c2\<lparr>Timeout := 1\<rparr> else c2)
            in Returns (p\<lparr>config := c3\<rparr>))
      in case privateOptions of
           None \<Rightarrow> finish c0
         | Some (ConfigPtr None) \<Rightarrow> Panics
         | Some (ConfigPtr (Some cfg)) \<Rightarrow> finish cfg
         | Some (StringMap privateMap) \<Rightarrow>
             (case json_Marshal lib privateMap of
                Inl err \<Rightarrow> finish c0
              | Inr jsonBytes \<Rightarrow> finish (fst (json_Unmarshal lib jsonBytes c0)))
         | Some (OtherValue v) \<Rightarrow> finish c0)"

definition Validate_impl ::
  "('m, 'a) library \<Rightarrow> ('m, 'a) iface option \<Rightarrow> error option outcome" where
  "Validate_impl lib privateOptions =
     (let check = (\<lambda>cfg. if sint (Timeout cfg) < 1 \<or> sint (Timeout cfg) > 30
                         then Returns (Some (InvalidTimeout (Timeout cfg)))
                         else Returns None)
      in case conf_Unmarshal lib None \<lparr>Timeout = 0, SkipVerify = False\<rparr> of
           (cfg0, Some err) \<Rightarrow> Returns (Some (SetDefaultConfigFailed err))
         | (cfg0, None) \<Rightarrow>
             (case privateOptions of
                None \<Rightarrow> check cfg0
              | Some (ConfigPtr None) \<Rightarrow> Panics
              | Some (ConfigPtr (Some cfg)) \<Rightarrow> check cfg
              | Some (StringMap privateMap) \<Rightarrow>
                  (case json_Marshal lib privateMap of
                     Inl err \<Rightarrow> Returns (Some (MarshalConfigMapFailed err))
                   | Inr jsonBytes \<Rightarrow>
                       (case json_Unmarshal lib jsonBytes cfg0 of
                          (cfg, Some err) \<Rightarrow> Returns (Some (UnmarshalJsonConfigFailed err))
                        | (cfg, None) \<Rightarrow> check cfg))
              | Some (OtherValue v) \<Rightarrow> check cfg0))"

subsection \<open>Building requests\<close>

text \<open>
  \<open>http.NewRequest(method, url, nil)\<close>: the request with an empty header, unless the
  target does not parse.
\<close>

definition http_NewRequest :: "('m, 'a) library \<Rightarrow> string \<Rightarrow> string \<Rightarrow> string + Request" where
  "http_NewRequest lib method url =
     (case url_Parse lib url of
        Some err \<Rightarrow> Inl err
      | None \<Rightarrow> Inr \<lparr>Method = method, URL = url, Header = Map.empty\<rparr>)"

definition Header_Set :: "Request \<Rightarrow> string \<Rightarrow> string \<Rightarrow> Request" where
  "Header_Set req k v = req\<lparr>Header := (Header req)(k \<mapsto> v)\<rparr>"

text \<open>
  \<open>base64.StdEncoding.EncodeToString\<close>: three bytes become four characters of the
  standard alphabet, a last group of one or two bytes is padded with \<open>=\<close>.
\<close>

definition base64_alphabet :: string where
  "base64_alphabet = ''ABCDEFGHIJKLMNOPQRSTUVWXYZabcdefghijklmnopqrstuvwxyz0123456789+/''"

definition base64_char :: "nat \<Rightarrow> char" where
  "base64_char n = base64_alphabet ! (n mod 64)"

fun base64 :: "string \<Rightarrow> string" where
  "base64 [] = []"
| "base64 [a] =
     (let n = of_char a * 65536
      in [base64_char (n div 262144), base64_char (n div 4096), CHR ''='', CHR ''=''])"
| "base64 [a, b] =
     (let n = of_char a * 65536 + of_char b * 256
      in [base64_char (n div 262144), base64_char (n div 4096), base64_char (n div 64),
          CHR ''=''])"
| "base64 (a # b # c # rest) =
     (let n = of_char a * 65536 + of_char b * 256 + of_char c
      in [base64_char (n div 262144), base64_char (n div 4096), base64_char (n div 64),
          base64_char n] @ base64 rest)"

text \<open>
  \<open>req.SetBasicAuth(username, password)\<close> sets \<open>Authorization\<close> to \<open>Basic\<close> and the
  base64 form of \<open>username:password\<close>.
\<close>

definition SetBasicAuth :: "Request \<Rightarrow> string \<Rightarrow> string \<Rightarrow> Request" where
  "SetBasicAuth req username password =
     Header_Set req ''Authorization'' (''Basic '' @ base64 (username @ '':'' @ password))"

subsection \<open>Export and doRequest (src/main.go)\<close>

text \<open>
  A request execution returns its result together with the calls of \<open>client.Do\<close> it
  made, each with the client and the request passed: the empty list when no network
  call was attempted.
\<close>

type_synonym execution = "(error + string) \<times> (Client \<times> Request) list"

text \<open>Lines 588-607: the snapshot of the configuration and the client built from it.\<close>

definition request_timeout :: "Plugin \<Rightarrow> 64 word" where
  "request_timeout p =
     (let timeout = Timeout (config p) * 1000000000
      in if sint timeout \<le> 0 then 10 * 1000000000 else timeout)"

definition build_client :: "Plugin \<Rightarrow> Client" where
  "build_client p =
     \<lparr>ClientTimeout = request_timeout p, InsecureSkipVerify = SkipVerify (config p)\<rparr>"

text \<open>Lines 645-661: \<open>client.Do\<close>, then \<open>io.ReadAll\<close> of the body.\<close>

definition execute :: "('m, 'a) library \<Rightarrow> Client \<Rightarrow> string \<Rightarrow> Request \<Rightarrow> execution" where
  "execute lib client url req =
     ((case client_Do lib client req of
         Inl err \<Rightarrow> Inl (RequestFailed url err)
       | Inr resp \<Rightarrow>
           (case Body resp of
              Inl err \<Rightarrow> Inl (ReadBodyFailed url err)
            | Inr body \<Rightarrow> Inr body)),
      [(client, req)])"

definition doRequest ::
  "('m, 'a) library \<Rightarrow> Plugin \<Rightarrow> string \<Rightarrow> string \<Rightarrow> string \<Rightarrow> string \<Rightarrow> execution" where
  "doRequest lib p url authType user pass =
     (let client = build_client p
      in case http_NewRequest lib ''GET'' url of
           Inl err \<Rightarrow> (Inl (BuildRequestFailed url err), [])
         | Inr req0 \<Rightarrow>
             (let req1 = Header_Set req0 ''User-Agent'' ''Zabbix-Plugin-Segi9/1.0'';
                  req2 = Header_Set req1 ''Accept'' ''*/*'';
                  mode = strings_ToLower lib authType
              in if mode = ''basic'' then
                   execute lib client url (SetBasicAuth req2 user pass)
                 else if mode = ''bearer'' then
                   (if user = '''' then (Inl BearerTokenRequired, [])
                    else execute lib client url
                           (Header_Set req2 ''Authorization'' (''Bearer '' @ user)))
                 else if mode = ''none'' \<or> mode = '''' then
                   execute lib client url req2
                 else (Inl (UnsupportedAuthType authType), [])))"

definition Export ::
  "('m, 'a) library \<Rightarrow> Plugin \<Rightarrow> string \<Rightarrow> string list \<Rightarrow> execution" where
  "Export lib p key params =
     (if key \<noteq> ''segi9.http'' then (Inl (UnsupportedKey key), [])
      else if length params = 0 \<or> strings_TrimSpace lib (params ! 0) = '''' then
        (Inl UrlRequired, [])
      else
        (let url = strings_TrimSpace lib (params ! 0);
             authType = (if length params > 1 \<and> strings_TrimSpace lib (params ! 1) \<noteq> ''''
                         then strings_TrimSpace lib (params ! 1) else ''none'');
             user = (if length params > 2 then params ! 2 else '''');
             pass = (if length params > 3 then params ! 3 else '''')
         in doRequest lib p url authType user pass))"

text \<open>\<open>runManual\<close> of lines 202-220: a fresh plugin with the manual-mode configuration.\<close>

definition runManual ::
  "('m, 'a) library \<Rightarrow> string \<Rightarrow> string \<Rightarrow> string \<Rightarrow> string \<Rightarrow> execution" where
  "runManual lib url authType user pass =
     doRequest lib \<lparr>config = \<lparr>Timeout = 10, SkipVerify = True\<rparr>\<rparr> url authType user pass"

subsection \<open>Export (src/Makefile)\<close>

definition build_client_impl :: "Plugin \<Rightarrow> Client" where
  "build_client_impl p =
     (let timeoutVal = Timeout (config p);
          skipVerify = SkipVerify (config p);
          timeout = (if timeoutVal = 0 then 10 * 1000000000 else timeoutVal * 1000000000)
      in \<lparr>ClientTimeout = timeout, InsecureSkipVerify = skipVerify\<rparr>)"

definition execute_impl :: "('m, 'a) library \<Rightarrow> Client \<Rightarrow> Request \<Rightarrow> execution" where
  "execute_impl lib client req =
     ((case client_Do lib client req of
         Inl err \<Rightarrow> Inl (RequestFailed_impl err)
       | Inr resp \<Rightarrow>
           (case Body resp of
              Inl err \<Rightarrow> Inl (ReadBodyFailed_impl err)
            | Inr body \<Rightarrow> Inr body)),
      [(client, req)])"

definition Export_impl ::
  "('m, 'a) library \<Rightarrow> Plugin \<Rightarrow> string \<Rightarrow> string list \<Rightarrow> execution" where
  "Export_impl lib p key params =
     (if length params < 1 then (Inl MissingUrlParameter, [])
      else
        (let url = params ! 0
         in if url = '''' then (Inl UrlCannotBeEmpty, [])
            else
              (let authType = (if length params > 1 \<and> params ! 1 \<noteq> ''''
                               then strings_ToLower lib (params ! 1) else ''none'');
                   usernameOrToken = (if length params > 2 then params ! 2 else '''');
                   password = (if length params > 3 then params ! 3 else '''');
                   client = build_client_impl p
               in case http_NewRequest lib ''GET'' url of
                    Inl err \<Rightarrow> (Inl (CreateRequestFailed err), [])
                  | Inr req0 \<Rightarrow>
                      (let req1 = Header_Set req0 ''Content-Type'' ''application/json''
                       in if authType = ''basic'' then
                            execute_impl lib client (SetBasicAuth req1 usernameOrToken password)
                          else if authType = ''bearer'' then
                            execute_impl lib client
                              (Header_Set req1 ''Authorization'' (''Bearer '' @ usernameOrToken))
                          else if authType = ''none'' then
                            execute_impl lib client req1
                          else (Inl (UnsupportedAuthType_impl authType), [])))))"

text \<open>
  \<open>runManual\<close> of \<open>src/main.go\<close> lines 52-92, once the \<open>-manual\<close> target is known to be
  non-empty: the parameters, the manual-mode configuration written into \<open>impl\<close>, and
  the call of \<open>Export\<close>.
\<close>

definition runManual_impl ::
  "('m, 'a) library \<Rightarrow> Plugin \<Rightarrow> string \<Rightarrow> string \<Rightarrow> string \<Rightarrow> string \<Rightarrow> execution" where
  "runManual_impl lib impl manualURL authType username password =
     (let params = (if authType \<noteq> ''none'' then [manualURL, authType, username, password]
                    else [manualURL]);
          impl1 = impl\<lparr>config := (config impl)\<lparr>Timeout := 10, SkipVerify := True\<rparr>\<rparr>
      in Export_impl lib impl1 ''segi9.http'' params)"

subsection \<open>The configurations a plugin can hold\<close>

text \<open>
  A \<open>Plugin\<close> starts as the zero value; its configuration is written by \<open>Configure\<close>
  and by \<open>runManual\<close> only.
\<close>

inductive reachable :: "('m, 'a) library \<Rightarrow> Plugin \<Rightarrow> bool" for lib :: "('m, 'a) library" where
  reachable_zero: "reachable lib \<lparr>config = \<lparr>Timeout = 0, SkipVerify = False\<rparr>\<rparr>"
| reachable_manual: "reachable lib \<lparr>config = \<lparr>Timeout = 10, SkipVerify = True\<rparr>\<rparr>"
| reachable_Configure: "reachable lib p \<Longrightarrow> reachable lib (Configure lib p global options)"

text \<open>In the second copy a panic of \<open>Configure\<close> ends the process: no state follows it.\<close>

inductive reachable_impl :: "('m, 'a) library \<Rightarrow> Plugin \<Rightarrow> bool"
  for lib :: "('m, 'a) library" where
  reachable_impl_zero: "reachable_impl lib \<lparr>config = \<lparr>Timeout = 0, SkipVerify = False\<rparr>\<rparr>"
| reachable_impl_manual:
    "reachable_impl lib p \<Longrightarrow>
     reachable_impl lib (p\<lparr>config := (config p)\<lparr>Timeout := 10, SkipVerify := True\<rparr>\<rparr>)"
| reachable_impl_Configure:
    "reachable_impl lib p \<Longrightarrow> Configure_impl lib p global privateOptions = Returns p' \<Longrightarrow>
     reachable_impl lib p'"

subsection \<open>The library on ASCII text\<close>

text \<open>
  For evaluation on concrete inputs: \<open>strings.ToLower\<close> and \<open>strings.TrimSpace\<close> as they
  act on ASCII text, a parser that accepts the targets used below, a server that
  answers every request with one fixed response, and a decoder that takes the
  configuration out of a \<open>*Config\<close> as it is.
\<close>

text \<open>An upper-case letter has bit 5 clear; setting it adds 32.\<close>

definition ascii_lower :: "char \<Rightarrow> char" where
  "ascii_lower c =
     (let n = (of_char c :: nat)
      in if 65 \<le> n \<and> n \<le> 90
         then (case c of Char b0 b1 b2 b3 b4 b5 b6 b7 \<Rightarrow> Char b0 b1 b2 b3 b4 True b6 b7)
         else c)"

definition ascii_ToLower :: "string \<Rightarrow> string" where
  "ascii_ToLower s = map ascii_lower s"

definition ascii_space :: "char \<Rightarrow> bool" where
  "ascii_space c = (let n = (of_char c :: nat) in (9 \<le> n \<and> n \<le> 13) \<or> n = 32)"

definition ascii_TrimSpace :: "string \<Rightarrow> string" where
  "ascii_TrimSpace s = rev (dropWhile ascii_space (rev (dropWhile ascii_space s)))"

definition ascii_library :: "Response \<Rightarrow> (unit, unit) library" where
  "ascii_library resp =
     \<lparr>strings_ToLower = ascii_ToLower,
      strings_TrimSpace = ascii_TrimSpace,
      url_Parse = (\<lambda>url. None),
      client_Do = (\<lambda>client req. Inr resp),
      conf_Unmarshal = (\<lambda>data cfg. case data of
                          Some (ConfigPtr (Some c)) \<Rightarrow> (c, None)
                        | _ \<Rightarrow> (\<lparr>Timeout = 10, SkipVerify = False\<rparr>, None)),
      json_Marshal = (\<lambda>m. Inr ''{}''),
      json_Unmarshal = (\<lambda>bytes cfg. (cfg, None))\<rparr>"

text \<open>
  The same library with options of another dynamic type (the raw data that
  \<open>conf.Unmarshal\<close> decodes): the payload stands for the configuration it decodes
  to, which the decoder hands over without a range check of its own.
\<close>

definition raw_library :: "Response \<Rightarrow> (unit, Config) library" where
  "raw_library resp =
     \<lparr>strings_ToLower = ascii_ToLower,
      strings_TrimSpace = ascii_TrimSpace,
      url_Parse = (\<lambda>url. None),
      client_Do = (\<lambda>client req. Inr resp),
      conf_Unmarshal = (\<lambda>data cfg. case data of
                          Some (OtherValue c) \<Rightarrow> (c, None)
                        | Some (ConfigPtr (Some c)) \<Rightarrow> (c, None)
                        | _ \<Rightarrow> (\<lparr>Timeout = 10, SkipVerify = False\<rparr>, None)),
      json_Marshal = (\<lambda>m. Inr ''{}''),
      json_Unmarshal = (\<lambda>bytes cfg. (cfg, None))\<rparr>"

subsection \<open>Reading an execution; concrete inputs\<close>

definition clients :: "execution \<Rightarrow> Client list" where
  "clients e = map fst (snd e)"

definition requests :: "execution \<Rightarrow> Request list" where
  "requests e = map snd (snd e)"

definition example_response :: Response where
  "example_response = \<lparr>StatusCode = 200, Body = Inr ''ok''\<rparr>"

definition error_response :: Response where
  "error_response = \<lparr>StatusCode = 503, Body = Inr ''unavailable''\<rparr>"

text \<open>The zero value of \<open>Plugin\<close>: \<open>&Plugin{}\<close> and \<open>var impl Plugin\<close>.\<close>

definition zero_plugin :: Plugin where
  "zero_plugin = \<lparr>config = \<lparr>Timeout = 0, SkipVerify = False\<rparr>\<rparr>"

section \<open>Properties\<close>

subsection \<open>Shared facts\<close>

lemma execute_calls [simp]: "snd (execute lib client url req) = [(client, req)]"
  by (simp add: execute_def)

lemma execute_impl_calls [simp]: "snd (execute_impl lib client req) = [(client, req)]"
  by (simp add: execute_impl_def)

lemma execute_result:
  "client_Do lib client req = Inr \<lparr>StatusCode = code, Body = Inr body\<rparr> \<Longrightarrow>
   fst (execute lib client url req) = Inr body"
  by (simp add: execute_def)

lemma execute_impl_result:
  "client_Do lib client req = Inr \<lparr>StatusCode = code, Body = Inr body\<rparr> \<Longrightarrow>
   fst (execute_impl lib client req) = Inr body"
  by (simp add: execute_impl_def)

lemma execute_not_UnsupportedKey:
  "fst (execute lib client url req) \<noteq> Inl (UnsupportedKey k)"
  by (simp add: execute_def split: sum.splits)

lemma doRequest_not_UnsupportedKey:
  "fst (doRequest lib p url authType user pass) \<noteq> Inl (UnsupportedKey k)"
  by (simp add: doRequest_def Let_def execute_not_UnsupportedKey split: sum.splits)

lemma doRequest_is_execute:
  "snd (doRequest lib p url authType user pass) = [(c, r)] \<longrightarrow>
   doRequest lib p url authType user pass = execute lib c url r"
  by (simp add: doRequest_def Let_def split: sum.split)

lemma Export_impl_is_execute:
  "snd (Export_impl lib p key params) = [(c, r)] \<longrightarrow>
   Export_impl lib p key params = execute_impl lib c r"
  by (simp add: Export_impl_def Let_def split: sum.split)

lemma Export_stops_or_doRequest:
  "Export lib p key params = (Inl (UnsupportedKey key), []) \<or>
   Export lib p key params = (Inl UrlRequired, []) \<or>
   (\<exists>authType user pass. Export lib p key params =
      doRequest lib p (strings_TrimSpace lib (params ! 0)) authType user pass)"
  unfolding Export_def Let_def by (simp only: split: if_split) blast

lemma Export_is_execute:
  assumes "snd (Export lib p key params) = [(c, r)]"
  shows "Export lib p key params = execute lib c (strings_TrimSpace lib (params ! 0)) r"
proof -
  from Export_stops_or_doRequest [of lib p key params] assms
  obtain authType user pass where
    "Export lib p key params =
       doRequest lib p (strings_TrimSpace lib (params ! 0)) authType user pass"
    by fastforce
  with assms doRequest_is_execute show ?thesis by metis
qed

lemma doRequest_clients:
  "list_all (\<lambda>c. c = build_client p) (clients (doRequest lib p url authType user pass))"
  by (simp add: doRequest_def clients_def Let_def split: sum.splits)

lemma Export_impl_clients:
  "list_all (\<lambda>c. c = build_client_impl p) (clients (Export_impl lib p key params))"
  by (simp add: Export_impl_def clients_def Let_def split: sum.splits)

lemma doRequest_requests:
  "list_all (\<lambda>r. Method r = ''GET'' \<and> URL r = url
                \<and> Header r ''User-Agent'' = Some ''Zabbix-Plugin-Segi9/1.0''
                \<and> Header r ''Accept'' = Some ''*/*'')
     (requests (doRequest lib p url authType user pass))"
  by (simp add: doRequest_def requests_def Let_def http_NewRequest_def Header_Set_def
      SetBasicAuth_def split: option.splits)

subsection \<open>The stored timeout\<close>

lemma clamp_timeout_range:
  "1 \<le> sint (Timeout (clamp_timeout c)) \<and> sint (Timeout (clamp_timeout c)) \<le> 30"
  by (simp add: clamp_timeout_def Let_def)

lemma clamp_timeout_value:
  "Timeout (clamp_timeout c) =
     (if sint (Timeout c) < 1 then 1 else if sint (Timeout c) > 30 then 30 else Timeout c)"
  by (simp add: clamp_timeout_def Let_def)

text \<open>
  \<open>Configure\<close> of \<open>src/main.go\<close> stores a timeout in \<open>[1, 30]\<close>, whatever the options, the
  global options and the decoder: a decoded timeout above 30 is stored as 30.
\<close>

lemma Configure_clamps:
  "1 \<le> sint (Timeout (config (Configure lib p global options))) \<and>
   sint (Timeout (config (Configure lib p global options))) \<le> 30"
  by (simp add: Configure_def Let_def clamp_timeout_range)

lemma Configure_above_30:
  assumes "fst (conf_Unmarshal lib (Some opts) \<lparr>Timeout = 10, SkipVerify = False\<rparr>) = cfg"
      and "sint (Timeout cfg) > 30"
  shows "Timeout (config (Configure lib p global (Some opts))) = 30"
  using assms
  by (auto simp add: Configure_def Let_def clamp_timeout_value global_fallback_def
      split: option.splits)

text \<open>\<open>Configure\<close> of \<open>src/Makefile\<close> raises a timeout below 1 and leaves any other as it is.\<close>

lemma Configure_impl_at_least_1:
  assumes "Configure_impl lib p global privateOptions = Returns p'"
  shows "1 \<le> sint (Timeout (config p'))"
  using assms
  by (auto simp add: Configure_impl_def Let_def
      split: option.splits iface.splits sum.splits if_splits)

lemma Configure_impl_unclamped:
  assumes "sint t \<ge> 1"
  shows "Configure_impl lib p global (Some (ConfigPtr (Some \<lparr>Timeout = t, SkipVerify = s\<rparr>)))
         = Returns (p\<lparr>config := \<lparr>Timeout = t, SkipVerify = s\<rparr>\<rparr>)"
  using assms
  by (auto simp add: Configure_impl_def Let_def split: option.splits)

lemma reachable_Timeout:
  "reachable lib p \<Longrightarrow>
   Timeout (config p) = 0 \<or> (1 \<le> sint (Timeout (config p)) \<and> sint (Timeout (config p)) \<le> 30)"
  by (induction rule: reachable.induct) (simp_all add: Configure_clamps)

lemma reachable_impl_Timeout:
  "reachable_impl lib p \<Longrightarrow> Timeout (config p) = 0 \<or> 1 \<le> sint (Timeout (config p))"
  by (induction rule: reachable_impl.induct) (simp_all add: Configure_impl_at_least_1)

lemma request_timeout_positive: "0 < sint (request_timeout p)"
  by (simp add: request_timeout_def Let_def)

subsection \<open>C1: the timeout that Configure stores\<close>

text \<open>
  C1. A configuration committed with timeout 45 through the \<open>Configure\<close> of
  \<open>src/Makefile\<close> is stored with timeout 45: that copy only raises a timeout below 1
  (\<open>Configure_impl_unclamped\<close>). The \<open>Configure\<close> of \<open>src/main.go\<close> stores 30 for
  the same candidate (\<open>Configure_clamps\<close> and \<open>Configure_above_30\<close> give its clamp
  in general).
\<close>

theorem Configure_impl_stores_45:
  "Configure_impl (ascii_library example_response) zero_plugin None
     (Some (ConfigPtr (Some \<lparr>Timeout = 45, SkipVerify = False\<rparr>)))
   = Returns \<lparr>config = \<lparr>Timeout = 45, SkipVerify = False\<rparr>\<rparr>
   \<and> Configure (ascii_library example_response) zero_plugin None
     (Some (ConfigPtr (Some \<lparr>Timeout = 45, SkipVerify = False\<rparr>)))
   = \<lparr>config = \<lparr>Timeout = 30, SkipVerify = False\<rparr>\<rparr>"
  by (simp add: Configure_impl_def Configure_def clamp_timeout_def global_fallback_def
      ascii_library_def zero_plugin_def Let_def)

subsection \<open>C2: bearer mode\<close>

text \<open>
  In \<open>doRequest\<close> of \<open>src/main.go\<close>, bearer mode without a token makes no network call
  and, when the request could be built, fails for the missing token; with a token the
  request sent carries \<open>Authorization: Bearer\<close> and the token, and the secret plays no
  part.
\<close>

lemma doRequest_bearer_without_token:
  assumes "strings_ToLower lib authType = ''bearer''"
  shows "snd (doRequest lib p url authType '''' pass) = []"
    and "url_Parse lib url = None \<Longrightarrow>
         fst (doRequest lib p url authType '''' pass) = Inl BearerTokenRequired"
  using assms
  by (simp_all add: doRequest_def Let_def http_NewRequest_def split: sum.splits option.splits)

lemma doRequest_bearer_with_token:
  assumes "strings_ToLower lib authType = ''bearer''" and "user \<noteq> ''''"
      and "url_Parse lib url = None"
  shows "map (\<lambda>r. Header r ''Authorization'') (requests (doRequest lib p url authType user pass))
         = [Some (''Bearer '' @ user)]"
  using assms
  by (simp add: doRequest_def Let_def http_NewRequest_def requests_def Header_Set_def)

lemma doRequest_bearer_ignores_secret:
  assumes "strings_ToLower lib authType = ''bearer''"
  shows "doRequest lib p url authType user pass = doRequest lib p url authType user pass'"
  using assms by (simp add: doRequest_def Let_def split: sum.split)

text \<open>
  C2. The \<open>Export\<close> of \<open>src/Makefile\<close>, called in bearer mode without a token, sends a
  request with the header \<open>Authorization: Bearer\<close> and an empty token; the \<open>Export\<close>
  of \<open>src/main.go\<close> rejects the same parameters without a network call.
\<close>

theorem Export_impl_bearer_without_token:
  "map (\<lambda>r. Header r ''Authorization'')
     (requests (Export_impl (ascii_library example_response) zero_plugin ''segi9.http''
        [''https://example.test/data'', ''bearer'']))
   = [Some ''Bearer '']
   \<and> Export (ascii_library example_response) zero_plugin ''segi9.http''
        [''https://example.test/data'', ''bearer'']
   = (Inl BearerTokenRequired, [])"
  by (simp add: Export_impl_def Export_def doRequest_def http_NewRequest_def requests_def
      Header_Set_def ascii_library_def ascii_ToLower_def ascii_lower_def ascii_TrimSpace_def
      ascii_space_def Let_def)

subsection \<open>C3: Validate\<close>

text \<open>
  \<open>Validate\<close> of \<open>src/main.go\<close> decodes every options value that is not \<open>nil\<close>: it
  returns no error exactly when there are no options, or the decoding succeeds and
  the decoded timeout \<open>T\<close> satisfies \<open>1 \<le> T \<le> 30\<close>; a decoding failure is returned
  as such, and a timeout out of range in an error that names it.
\<close>

lemma Validate_cases:
  "Validate lib options =
     (case options of
        None \<Rightarrow> None
      | Some opts \<Rightarrow>
          (case conf_Unmarshal lib (Some opts) \<lparr>Timeout = 10, SkipVerify = False\<rparr> of
             (cfg, Some err) \<Rightarrow> Some (ParseConfigFailed err)
           | (cfg, None) \<Rightarrow>
               if 1 \<le> sint (Timeout cfg) \<and> sint (Timeout cfg) \<le> 30 then None
               else Some (TimeoutOutOfRange (Timeout cfg))))"
  by (auto simp add: Validate_def Let_def split: prod.splits option.splits)

lemma Validate_accepts_iff:
  "Validate lib (Some opts) = None \<longleftrightarrow>
     snd (conf_Unmarshal lib (Some opts) \<lparr>Timeout = 10, SkipVerify = False\<rparr>) = None \<and>
     1 \<le> sint (Timeout (fst (conf_Unmarshal lib (Some opts)
                                \<lparr>Timeout = 10, SkipVerify = False\<rparr>))) \<and>
     sint (Timeout (fst (conf_Unmarshal lib (Some opts)
                           \<lparr>Timeout = 10, SkipVerify = False\<rparr>))) \<le> 30"
  by (auto simp add: Validate_cases split: prod.splits option.splits)

text \<open>
  \<open>Validate\<close> of \<open>src/Makefile\<close> checks the timeout of a \<open>*Config\<close> and of what the
  JSON round trip of a map leaves. Options of any other dynamic type are not read:
  the check runs on the defaults, whatever the options hold.
\<close>

lemma Validate_impl_in_range:
  "(snd (conf_Unmarshal lib None \<lparr>Timeout = 0, SkipVerify = False\<rparr>) = None \<longrightarrow>
      Validate_impl lib (Some (ConfigPtr (Some c))) =
        Returns (if 1 \<le> sint (Timeout c) \<and> sint (Timeout c) \<le> 30 then None
                 else Some (InvalidTimeout (Timeout c))))
   \<and> (conf_Unmarshal lib None \<lparr>Timeout = 0, SkipVerify = False\<rparr> = (cfg0, None) \<and>
      json_Marshal lib m = Inr jsonBytes \<and> json_Unmarshal lib jsonBytes cfg0 = (c', None) \<longrightarrow>
      Validate_impl lib (Some (StringMap m)) =
        Returns (if 1 \<le> sint (Timeout c') \<and> sint (Timeout c') \<le> 30 then None
                 else Some (InvalidTimeout (Timeout c'))))"
  by (auto simp add: Validate_impl_def Let_def split: prod.splits option.splits)

lemma Validate_impl_other_type:
  assumes "conf_Unmarshal lib None \<lparr>Timeout = 0, SkipVerify = False\<rparr> = (cfg0, None)"
  shows "Validate_impl lib (Some (OtherValue v)) = Validate_impl lib None"
    and "1 \<le> sint (Timeout cfg0) \<and> sint (Timeout cfg0) \<le> 30 \<Longrightarrow>
         Validate_impl lib (Some (OtherValue v)) = Returns None"
  using assms by (simp_all add: Validate_impl_def Let_def)

lemma Validate_impl_nil_pointer:
  assumes "snd (conf_Unmarshal lib None \<lparr>Timeout = 0, SkipVerify = False\<rparr>) = None"
  shows "Validate_impl lib (Some (ConfigPtr None)) = Panics"
  using assms by (auto simp add: Validate_impl_def Let_def split: prod.splits option.splits)

text \<open>
  C3. Options that are neither a \<open>*Config\<close> nor a map and that decode to a timeout of
  45 are accepted by the \<open>Validate\<close> of \<open>src/Makefile\<close>, which returns no error; the
  \<open>Validate\<close> of \<open>src/main.go\<close> decodes them and rejects the timeout, naming it.
\<close>

theorem Validate_impl_accepts_45:
  "Validate_impl (raw_library example_response)
     (Some (OtherValue \<lparr>Timeout = 45, SkipVerify = False\<rparr>))
   = Returns None
   \<and> Validate (raw_library example_response)
     (Some (OtherValue \<lparr>Timeout = 45, SkipVerify = False\<rparr>))
   = Some (TimeoutOutOfRange 45)"
  by (simp add: Validate_impl_def Validate_def raw_library_def Let_def)

subsection \<open>C4: auth modes outside none, basic and bearer\<close>

text \<open>
  \<open>doRequest\<close> has one case for \<open>none\<close> and the empty string: where lower-casing
  leaves both as they are, the empty mode runs as \<open>none\<close> does.
\<close>

lemma doRequest_empty_mode:
  assumes "strings_ToLower lib '''' = ''''" and "strings_ToLower lib ''none'' = ''none''"
  shows "doRequest lib p url '''' user pass = doRequest lib p url ''none'' user pass"
  using assms by (simp add: doRequest_def Let_def split: sum.split)

text \<open>
  C4, as stated, fails at the empty mode: it is outside \<open>none\<close>, \<open>basic\<close> and
  \<open>bearer\<close>, yet \<open>doRequest\<close> takes it as \<open>none\<close> and sends the request, and so does
  either \<open>Export\<close>, which puts \<open>none\<close> in its place (\<open>src/main.go\<close> also for a mode of
  white space only).
\<close>

theorem empty_auth_mode_counterexample:
  "ascii_TrimSpace (ascii_ToLower '''') \<notin> {''none'', ''basic'', ''bearer''}
   \<and> fst (doRequest (ascii_library example_response) zero_plugin
        ''https://example.test/status'' '''' '''' '''') = Inr ''ok''
   \<and> length (snd (doRequest (ascii_library example_response) zero_plugin
        ''https://example.test/status'' '''' '''' '''')) = 1
   \<and> ascii_TrimSpace (ascii_ToLower ''  '') \<notin> {''none'', ''basic'', ''bearer''}
   \<and> fst (Export (ascii_library example_response) zero_plugin ''segi9.http''
        [''https://example.test/status'', ''  '']) = Inr ''ok''
   \<and> length (snd (Export (ascii_library example_response) zero_plugin ''segi9.http''
        [''https://example.test/status'', ''  ''])) = 1
   \<and> fst (Export_impl (ascii_library example_response) zero_plugin ''segi9.http''
        [''https://example.test/status'', '''']) = Inr ''ok''
   \<and> length (snd (Export_impl (ascii_library example_response) zero_plugin ''segi9.http''
        [''https://example.test/status'', ''''])) = 1"
  by (simp add: Export_impl_def Export_def doRequest_def http_NewRequest_def execute_def
      execute_impl_def ascii_library_def ascii_ToLower_def ascii_lower_def ascii_TrimSpace_def ascii_space_def
      example_response_def Let_def)

text \<open>
  C4, amended. A mode whose lower-case form is neither \<open>basic\<close>, \<open>bearer\<close>, \<open>none\<close> nor
  empty makes \<open>doRequest\<close> attempt no network call and, when the request could be
  built, return the unsupported-mode failure with the mode in it. The \<open>Export\<close> of
  \<open>src/main.go\<close> does so for the trimmed second parameter when that is not empty,
  the \<open>Export\<close> of \<open>src/Makefile\<close> for the second parameter as given when that is not
  empty, naming its lower-case form.
\<close>

theorem unsupported_auth_mode_rejected:
  "(strings_ToLower lib authType \<notin> {''basic'', ''bearer'', ''none'', ''''} \<longrightarrow>
      snd (doRequest lib p url authType user pass) = [] \<and>
      (url_Parse lib url = None \<longrightarrow>
         fst (doRequest lib p url authType user pass) = Inl (UnsupportedAuthType authType)))
   \<and> (key = ''segi9.http'' \<and> 1 < length params \<and>
       strings_TrimSpace lib (params ! 1) \<noteq> '''' \<and>
       strings_ToLower lib (strings_TrimSpace lib (params ! 1))
         \<notin> {''basic'', ''bearer'', ''none'', ''''} \<longrightarrow>
      snd (Export lib p key params) = [] \<and>
      (strings_TrimSpace lib (params ! 0) \<noteq> '''' \<and>
       url_Parse lib (strings_TrimSpace lib (params ! 0)) = None \<longrightarrow>
         fst (Export lib p key params)
           = Inl (UnsupportedAuthType (strings_TrimSpace lib (params ! 1)))))
   \<and> (1 < length params' \<and> params' ! 1 \<noteq> '''' \<and>
       strings_ToLower lib (params' ! 1) \<notin> {''basic'', ''bearer'', ''none''} \<longrightarrow>
      snd (Export_impl lib p key' params') = [] \<and>
      (params' ! 0 \<noteq> '''' \<and> url_Parse lib (params' ! 0) = None \<longrightarrow>
         fst (Export_impl lib p key' params')
           = Inl (UnsupportedAuthType_impl (strings_ToLower lib (params' ! 1)))))"
proof (intro conjI impI)
  assume "strings_ToLower lib authType \<notin> {''basic'', ''bearer'', ''none'', ''''}"
  then show "snd (doRequest lib p url authType user pass) = []"
    by (simp add: doRequest_def Let_def split: sum.splits)
next
  assume "strings_ToLower lib authType \<notin> {''basic'', ''bearer'', ''none'', ''''}"
     and "url_Parse lib url = None"
  then show "fst (doRequest lib p url authType user pass) = Inl (UnsupportedAuthType authType)"
    by (simp add: doRequest_def Let_def http_NewRequest_def)
next
  assume a: "key = ''segi9.http'' \<and> 1 < length params \<and>
       strings_TrimSpace lib (params ! 1) \<noteq> '''' \<and>
       strings_ToLower lib (strings_TrimSpace lib (params ! 1))
         \<notin> {''basic'', ''bearer'', ''none'', ''''}"
  then show "snd (Export lib p key params) = []"
    by (simp add: Export_def doRequest_def Let_def split: sum.splits)
next
  assume a: "key = ''segi9.http'' \<and> 1 < length params \<and>
       strings_TrimSpace lib (params ! 1) \<noteq> '''' \<and>
       strings_ToLower lib (strings_TrimSpace lib (params ! 1))
         \<notin> {''basic'', ''bearer'', ''none'', ''''}"
    and b: "strings_TrimSpace lib (params ! 0) \<noteq> '''' \<and>
       url_Parse lib (strings_TrimSpace lib (params ! 0)) = None"
  from a have "params \<noteq> []" by auto
  with a b show "fst (Export lib p key params)
           = Inl (UnsupportedAuthType (strings_TrimSpace lib (params ! 1)))"
    by (simp add: Export_def doRequest_def Let_def http_NewRequest_def)
next
  assume "1 < length params' \<and> params' ! 1 \<noteq> '''' \<and>
       strings_ToLower lib (params' ! 1) \<notin> {''basic'', ''bearer'', ''none''}"
  then show "snd (Export_impl lib p key' params') = []"
    by (simp add: Export_impl_def Let_def split: sum.splits)
next
  assume c: "1 < length params' \<and> params' ! 1 \<noteq> '''' \<and>
       strings_ToLower lib (params' ! 1) \<notin> {''basic'', ''bearer'', ''none''}"
    and d: "params' ! 0 \<noteq> '''' \<and> url_Parse lib (params' ! 0) = None"
  from c have "params' \<noteq> []" by auto
  with c d show "fst (Export_impl lib p key' params')
           = Inl (UnsupportedAuthType_impl (strings_ToLower lib (params' ! 1)))"
    by (simp add: Export_impl_def Let_def http_NewRequest_def)
qed

theorem unsupported_auth_mode_rejected_witness:
  "doRequest (ascii_library example_response) zero_plugin
     ''https://example.test/status'' ''Digest'' ''admin'' ''s3cr3t''
   = (Inl (UnsupportedAuthType ''Digest''), [])
   \<and> Export (ascii_library example_response) zero_plugin ''segi9.http''
     [''https://example.test/status'', '' Digest '', ''admin'', ''s3cr3t'']
   = (Inl (UnsupportedAuthType ''Digest''), [])
   \<and> Export_impl (ascii_library example_response) zero_plugin ''segi9.http''
     [''https://example.test/status'', ''Digest'', ''admin'', ''s3cr3t'']
   = (Inl (UnsupportedAuthType_impl ''digest''), [])"
  using unsupported_auth_mode_rejected
    [where lib = "ascii_library example_response" and p = zero_plugin
       and url = "''https://example.test/status''" and authType = "''Digest''"
       and user = "''admin''" and pass = "''s3cr3t''"
       and key = "''segi9.http''"
       and params = "[''https://example.test/status'', '' Digest '', ''admin'', ''s3cr3t'']"
       and key' = "''segi9.http''"
       and params' = "[''https://example.test/status'', ''Digest'', ''admin'', ''s3cr3t'']"]
  by (simp add: ascii_library_def ascii_ToLower_def ascii_lower_def ascii_TrimSpace_def ascii_space_def
      prod_eq_iff)

subsection \<open>C5: an empty target\<close>

text \<open>
  The \<open>Export\<close> of \<open>src/main.go\<close> rejects a missing target and one that is empty once
  trimmed, without a network call.
\<close>

lemma Export_empty_url:
  assumes "length params = 0 \<or> strings_TrimSpace lib (params ! 0) = ''''"
  shows "Export lib p ''segi9.http'' params = (Inl UrlRequired, [])"
  using assms by (simp add: Export_def)

text \<open>
  C5. The \<open>Export\<close> of \<open>src/Makefile\<close> compares the target with the empty string
  only: a target of three spaces, empty once trimmed, is built into a request and
  handed to \<open>client.Do\<close>. The \<open>Export\<close> of \<open>src/main.go\<close> rejects it; \<open>doRequest\<close>
  itself has no test of the target, so \<open>runManual\<close> of \<open>src/main.go\<close>, which \<open>main\<close>
  calls for every non-empty \<open>-manual\<close> target, sends the request as well.
\<close>

theorem Export_impl_blank_url:
  "ascii_TrimSpace ''   '' = ''''
   \<and> map URL (requests (Export_impl (ascii_library example_response) zero_plugin
        ''segi9.http'' [''   ''])) = [''   '']
   \<and> Export (ascii_library example_response) zero_plugin ''segi9.http'' [''   '']
     = (Inl UrlRequired, [])
   \<and> map URL (requests (runManual (ascii_library example_response)
        ''   '' ''none'' '''' '''')) = [''   '']"
  by (simp add: Export_impl_def Export_def runManual_def doRequest_def execute_def
      execute_impl_def http_NewRequest_def requests_def Header_Set_def ascii_library_def
      ascii_ToLower_def ascii_lower_def ascii_TrimSpace_def ascii_space_def Let_def)

subsection \<open>C6: the body of a response\<close>

text \<open>
  C6. When an execution made the call \<open>client.Do(req)\<close> and that call returned a
  response whose body was read in full, the execution returns that body, whatever
  the status code of the response.
\<close>

theorem response_body_returned:
  "(snd (doRequest lib p url authType user pass) = [(c, r)] \<and>
    client_Do lib c r = Inr \<lparr>StatusCode = code, Body = Inr body\<rparr> \<longrightarrow>
      fst (doRequest lib p url authType user pass) = Inr body)
   \<and> (snd (Export lib p key params) = [(c, r)] \<and>
    client_Do lib c r = Inr \<lparr>StatusCode = code, Body = Inr body\<rparr> \<longrightarrow>
      fst (Export lib p key params) = Inr body)
   \<and> (snd (Export_impl lib p key params) = [(c, r)] \<and>
    client_Do lib c r = Inr \<lparr>StatusCode = code, Body = Inr body\<rparr> \<longrightarrow>
      fst (Export_impl lib p key params) = Inr body)"
proof (intro conjI impI)
  assume "snd (doRequest lib p url authType user pass) = [(c, r)] \<and>
    client_Do lib c r = Inr \<lparr>StatusCode = code, Body = Inr body\<rparr>"
  then show "fst (doRequest lib p url authType user pass) = Inr body"
    using doRequest_is_execute [of lib p url authType user pass c r]
    by (simp add: execute_result)
next
  assume "snd (Export lib p key params) = [(c, r)] \<and>
    client_Do lib c r = Inr \<lparr>StatusCode = code, Body = Inr body\<rparr>"
  then show "fst (Export lib p key params) = Inr body"
    using Export_is_execute [of lib p key params c r]
    by (simp add: execute_result)
next
  assume "snd (Export_impl lib p key params) = [(c, r)] \<and>
    client_Do lib c r = Inr \<lparr>StatusCode = code, Body = Inr body\<rparr>"
  then show "fst (Export_impl lib p key params) = Inr body"
    using Export_impl_is_execute [of lib p key params c r]
    by (simp add: execute_impl_result)
qed

theorem response_body_returned_witness:
  "fst (doRequest (ascii_library error_response) zero_plugin
     ''https://example.test/status'' ''none'' '''' '''') = Inr ''unavailable''
   \<and> fst (Export (ascii_library error_response) zero_plugin ''segi9.http''
     [''https://example.test/status'']) = Inr ''unavailable''
   \<and> fst (Export_impl (ascii_library error_response) zero_plugin ''segi9.http''
     [''https://example.test/status'']) = Inr ''unavailable''"
proof -
  let ?lib = "ascii_library error_response"
  let ?url = "''https://example.test/status''"
  let ?r = "\<lparr>Method = ''GET'', URL = ?url,
             Header = [''User-Agent'' \<mapsto> ''Zabbix-Plugin-Segi9/1.0'', ''Accept'' \<mapsto> ''*/*'']\<rparr>"
  let ?r' = "\<lparr>Method = ''GET'', URL = ?url,
             Header = [''Content-Type'' \<mapsto> ''application/json'']\<rparr>"
  have 1: "snd (doRequest ?lib zero_plugin ?url ''none'' '''' '''')
             = [(build_client zero_plugin, ?r)]"
    by (simp add: doRequest_def http_NewRequest_def Header_Set_def ascii_library_def
        ascii_ToLower_def ascii_lower_def Let_def)
  have 2: "snd (Export ?lib zero_plugin ''segi9.http'' [?url])
             = [(build_client zero_plugin, ?r)]"
    by (simp add: Export_def doRequest_def http_NewRequest_def Header_Set_def ascii_library_def
        ascii_ToLower_def ascii_lower_def ascii_TrimSpace_def ascii_space_def Let_def)
  have 3: "snd (Export_impl ?lib zero_plugin ''segi9.http'' [?url])
             = [(build_client_impl zero_plugin, ?r')]"
    by (simp add: Export_impl_def http_NewRequest_def Header_Set_def ascii_library_def Let_def)
  have 4: "client_Do ?lib c r = Inr \<lparr>StatusCode = 503, Body = Inr ''unavailable''\<rparr>" for c r
    by (simp add: ascii_library_def error_response_def)
  show ?thesis
    using response_body_returned
      [where lib = ?lib and p = zero_plugin and url = ?url and authType = "''none''"
         and user = "''''" and pass = "''''" and c = "build_client zero_plugin" and r = ?r
         and code = 503 and body = "''unavailable''"]
      response_body_returned
      [where lib = ?lib and p = zero_plugin and key = "''segi9.http''" and params = "[?url]"
         and c = "build_client zero_plugin" and r = ?r
         and code = 503 and body = "''unavailable''"]
      response_body_returned
      [where lib = ?lib and p = zero_plugin and key = "''segi9.http''" and params = "[?url]"
         and c = "build_client_impl zero_plugin" and r = ?r'
         and code = 503 and body = "''unavailable''"]
      1 2 3 4
    by simp
qed

subsection \<open>C7: the default timeout\<close>

text \<open>
  In every state a plugin can be in, a configuration snapshot with a timeout of zero
  or less makes the client's timeout 10 seconds, in the client that the execution
  builds and in every call of \<open>client.Do\<close> it makes; this holds for \<open>doRequest\<close> of
  \<open>src/main.go\<close> and for \<open>Export\<close> of \<open>src/Makefile\<close>. The client of \<open>doRequest\<close> has a
  timeout above zero for every snapshot whatever, since \<open>doRequest\<close> tests the
  product of the snapshot and \<open>time.Second\<close>.
\<close>

lemma default_timeout_on_reachable:
  "(reachable lib p \<and> sint (Timeout (config p)) \<le> 0 \<longrightarrow>
      ClientTimeout (build_client p) = 10000000000 \<and>
      list_all (\<lambda>c. ClientTimeout c = 10000000000)
        (clients (doRequest lib p url authType user pass)))
   \<and> (reachable_impl lib q \<and> sint (Timeout (config q)) \<le> 0 \<longrightarrow>
      ClientTimeout (build_client_impl q) = 10000000000 \<and>
      list_all (\<lambda>c. ClientTimeout c = 10000000000)
        (clients (Export_impl lib q key params)))
   \<and> 0 < sint (ClientTimeout (build_client p'))"
proof (intro conjI impI)
  assume a: "reachable lib p \<and> sint (Timeout (config p)) \<le> 0"
  then have "Timeout (config p) = 0"
    using reachable_Timeout [of lib p] by auto
  then show t: "ClientTimeout (build_client p) = 10000000000"
    by (simp add: build_client_def request_timeout_def)
  from doRequest_clients [of p lib url authType user pass] t
  show "list_all (\<lambda>c. ClientTimeout c = 10000000000)
          (clients (doRequest lib p url authType user pass))"
    by (auto simp add: list_all_iff)
next
  assume a: "reachable_impl lib q \<and> sint (Timeout (config q)) \<le> 0"
  then have "Timeout (config q) = 0"
    using reachable_impl_Timeout [of lib q] by auto
  then show t: "ClientTimeout (build_client_impl q) = 10000000000"
    by (simp add: build_client_impl_def)
  from Export_impl_clients [of q lib key params] t
  show "list_all (\<lambda>c. ClientTimeout c = 10000000000)
          (clients (Export_impl lib q key params))"
    by (auto simp add: list_all_iff)
next
  show "0 < sint (ClientTimeout (build_client p'))"
    by (simp add: build_client_def request_timeout_positive)
qed

text \<open>
  C7. The \<open>Export\<close> of \<open>src/Makefile\<close> tests the snapshot itself against zero, before
  the multiplication. \<open>Configure\<close> of that copy stores a timeout of \<open>2 ^ 55\<close> seconds as
  it is; its product with \<open>time.Second\<close> wraps to zero, and \<open>Export\<close> builds a client
  with timeout zero, which \<open>net/http\<close> takes as no timeout. On the same configuration
  the \<open>Export\<close> of \<open>src/main.go\<close> builds a client with the default of 10 seconds.
\<close>

theorem Export_impl_zero_timeout:
  "Configure_impl (ascii_library example_response) zero_plugin None
     (Some (ConfigPtr (Some \<lparr>Timeout = 36028797018963968, SkipVerify = False\<rparr>)))
   = Returns \<lparr>config = \<lparr>Timeout = 36028797018963968, SkipVerify = False\<rparr>\<rparr>
   \<and> map ClientTimeout
       (clients (Export_impl (ascii_library example_response)
          \<lparr>config = \<lparr>Timeout = 36028797018963968, SkipVerify = False\<rparr>\<rparr>
          ''segi9.http'' [''https://example.test/status'']))
     = [0]
   \<and> map ClientTimeout
       (clients (Export (ascii_library example_response)
          \<lparr>config = \<lparr>Timeout = 36028797018963968, SkipVerify = False\<rparr>\<rparr>
          ''segi9.http'' [''https://example.test/status'']))
     = [10000000000]"
  by (simp add: Configure_impl_def Export_impl_def Export_def doRequest_def
      http_NewRequest_def clients_def build_client_def build_client_impl_def
      request_timeout_def ascii_library_def ascii_ToLower_def ascii_lower_def
      ascii_TrimSpace_def ascii_space_def zero_plugin_def Let_def)

subsection \<open>C8: the request and its client\<close>

text \<open>
  Every call of \<open>client.Do\<close> that \<open>doRequest\<close> of \<open>src/main.go\<close> makes passes a \<open>GET\<close>
  for the target with the plugin's \<open>User-Agent\<close> and \<open>Accept: */*\<close>
  (\<open>doRequest_requests\<close>), through the client built from the snapshot
  (\<open>doRequest_clients\<close>), whose timeout is the resolved one and whose TLS setting is
  the snapshot's flag.
\<close>

lemma build_client_fields:
  "ClientTimeout (build_client p) = request_timeout p \<and>
   InsecureSkipVerify (build_client p) = SkipVerify (config p)"
  by (simp add: build_client_def)

text \<open>
  C8. The request that the \<open>Export\<close> of \<open>src/Makefile\<close> sends is a \<open>GET\<close> with
  \<open>Content-Type: application/json\<close> and neither a \<open>User-Agent\<close> nor an \<open>Accept\<close>
  header set; the \<open>Export\<close> of \<open>src/main.go\<close> sets both for the same parameters.
\<close>

theorem Export_impl_request_headers:
  "map (\<lambda>r. (Method r, Header r ''User-Agent'', Header r ''Accept'', Header r ''Content-Type''))
     (requests (Export_impl (ascii_library example_response) zero_plugin ''segi9.http''
        [''https://example.test/status'']))
   = [(''GET'', None, None, Some ''application/json'')]
   \<and> map (\<lambda>r. (Method r, Header r ''User-Agent'', Header r ''Accept'', Header r ''Content-Type''))
     (requests (Export (ascii_library example_response) zero_plugin ''segi9.http''
        [''https://example.test/status'']))
   = [(''GET'', Some ''Zabbix-Plugin-Segi9/1.0'', Some ''*/*'', None)]"
  by (simp add: Export_impl_def Export_def doRequest_def http_NewRequest_def requests_def
      Header_Set_def ascii_library_def ascii_ToLower_def ascii_lower_def ascii_TrimSpace_def
      ascii_space_def Let_def)

subsection \<open>C9: basic mode\<close>

text \<open>
  C9. In basic mode the one request sent carries \<open>Authorization: Basic\<close> followed by
  the base64 form of \<open>user:pass\<close>, for every user and every secret, the empty secret
  included: in \<open>doRequest\<close> of \<open>src/main.go\<close> when the mode is \<open>basic\<close> in lower case, in
  \<open>Export\<close> of \<open>src/Makefile\<close> when the second parameter is, with the third and
  fourth parameters (empty when absent) as user and secret.
\<close>

theorem basic_auth_attached:
  "(strings_ToLower lib authType = ''basic'' \<and> url_Parse lib url = None \<longrightarrow>
      map (\<lambda>r. Header r ''Authorization'')
        (requests (doRequest lib p url authType user pass))
      = [Some (''Basic '' @ base64 (user @ '':'' @ pass))])
   \<and> (1 < length params \<and> params ! 0 \<noteq> '''' \<and> params ! 1 \<noteq> '''' \<and>
       strings_ToLower lib (params ! 1) = ''basic'' \<and> url_Parse lib (params ! 0) = None \<longrightarrow>
      map (\<lambda>r. Header r ''Authorization'')
        (requests (Export_impl lib p key params))
      = [Some (''Basic '' @ base64 ((if 2 < length params then params ! 2 else '''') @ '':'' @
                                   (if 3 < length params then params ! 3 else '''')))])"
proof (intro conjI impI)
  assume "strings_ToLower lib authType = ''basic'' \<and> url_Parse lib url = None"
  then show "map (\<lambda>r. Header r ''Authorization'')
        (requests (doRequest lib p url authType user pass))
      = [Some (''Basic '' @ base64 (user @ '':'' @ pass))]"
    by (simp add: doRequest_def http_NewRequest_def requests_def Header_Set_def
        SetBasicAuth_def Let_def)
next
  assume a: "1 < length params \<and> params ! 0 \<noteq> '''' \<and> params ! 1 \<noteq> '''' \<and>
       strings_ToLower lib (params ! 1) = ''basic'' \<and> url_Parse lib (params ! 0) = None"
  then have "params \<noteq> []" by auto
  with a show "map (\<lambda>r. Header r ''Authorization'')
        (requests (Export_impl lib p key params))
      = [Some (''Basic '' @ base64 ((if 2 < length params then params ! 2 else '''') @ '':'' @
                                   (if 3 < length params then params ! 3 else '''')))]"
    by (simp add: Export_impl_def http_NewRequest_def requests_def Header_Set_def
        SetBasicAuth_def Let_def)
qed

theorem basic_auth_attached_witness:
  "map (\<lambda>r. Header r ''Authorization'')
     (requests (doRequest (ascii_library example_response) zero_plugin
        ''https://example.test/secure'' ''Basic'' ''admin'' ''''))
   = [Some ''Basic YWRtaW46'']
   \<and> map (\<lambda>r. Header r ''Authorization'')
     (requests (Export_impl (ascii_library example_response) zero_plugin ''segi9.http''
        [''https://example.test/secure'', ''BASIC'', ''admin'', ''s3cr3t'']))
   = [Some ''Basic YWRtaW46czNjcjN0'']"
  using basic_auth_attached
    [where lib = "ascii_library example_response" and p = zero_plugin
       and url = "''https://example.test/secure''" and authType = "''Basic''"
       and user = "''admin''" and pass = "''''" and key = "''segi9.http''"
       and params = "[''https://example.test/secure'', ''BASIC'', ''admin'', ''s3cr3t'']"]
  by (simp add: ascii_library_def ascii_ToLower_def ascii_lower_def base64_char_def
      base64_alphabet_def)

subsection \<open>C10: the key\<close>

text \<open>
  C10. For a key other than \<open>segi9.http\<close> the \<open>Export\<close> of \<open>src/main.go\<close> returns the
  unsupported-key failure with the key in it, whatever the parameters, and makes no
  network call; for the key \<open>segi9.http\<close> it never returns that failure.
\<close>

theorem Export_unsupported_key:
  "(key \<noteq> ''segi9.http'' \<longrightarrow> Export lib p key params = (Inl (UnsupportedKey key), []))
   \<and> fst (Export lib p ''segi9.http'' params) \<noteq> Inl (UnsupportedKey k)"
  by (simp add: Export_def Let_def doRequest_not_UnsupportedKey)

theorem Export_unsupported_key_witness:
  "Export (ascii_library example_response) zero_plugin ''segi9.https''
     [''https://example.test/status'']
   = (Inl (UnsupportedKey ''segi9.https''), [])"
  using Export_unsupported_key
    [where key = "''segi9.https''" and lib = "ascii_library example_response"
       and p = zero_plugin and params = "[''https://example.test/status'']"]
  by simp

end
